theory Spec2Isabelle
  imports Main
begin

section \<open>Data model\<close>

text \<open>
  The documents follow the Mongoose schema of \<^verbatim>\<open>models/Post.js\<close> and the fields the
  route handlers read and write. An ObjectId is modelled by the string that
  \<^verbatim>\<open>toString()\<close> and the \<^verbatim>\<open>id\<close> getter give for it, so that the handlers'
  comparisons \<^verbatim>\<open>post.user.toString() !== req.user.id\<close> and
  \<^verbatim>\<open>comment.id === req.params.comment_id\<close> are equalities of strings.
  A JavaScript exception is the pair of the properties the handlers read:
  \<^verbatim>\<open>e.message\<close> and \<^verbatim>\<open>e.kind\<close>.
\<close>

type_synonym oid = string

record js_error =
  message :: string
  kind :: "string option"

record identity =
  uid :: oid

record claim =
  claim_user :: identity

record like =
  like_id :: oid
  like_user :: oid
  like_name :: string

record comment =
  comment_id :: oid
  comment_user :: oid
  comment_text :: string
  comment_name :: string
  comment_avatar :: string
  comment_date :: nat

record post =
  post_id :: oid
  post_user :: oid
  post_text :: string
  post_name :: string
  post_avatar :: string
  post_likes :: "like list"
  post_comments :: "comment list"
  post_date :: nat

record user =
  user_id :: oid
  user_name :: string
  user_email :: string
  user_password :: string
  user_avatar :: string

record newExp =
  title :: "string option"
  company :: "string option"
  from_date :: "string option"
  to_date :: "string option"
  location :: "string option"
  current :: "bool option"
  description :: "string option"

record newEdu =
  school :: "string option"
  degree :: "string option"
  fieldofstudy :: "string option"
  edu_from_date :: "string option"
  edu_to_date :: "string option"
  edu_is_current :: "bool option"
  edu_descr :: "string option"

record experience =
  exp_id :: oid
  exp_title :: "string option"
  exp_company :: "string option"
  exp_from :: "string option"
  exp_to :: "string option"
  exp_location :: "string option"
  exp_current :: "bool option"
  exp_description :: "string option"

record education =
  edu_id :: oid
  edu_school :: "string option"
  edu_degree :: "string option"
  edu_fieldofstudy :: "string option"
  edu_from :: "string option"
  edu_to :: "string option"
  edu_current :: "bool option"
  edu_description :: "string option"

record social =
  youtube :: "string option"
  facebook :: "string option"
  twitter :: "string option"
  instagram :: "string option"
  linkedin :: "string option"

record profile =
  profile_id :: oid
  profile_user :: oid
  profile_company :: "string option"
  profile_website :: "string option"
  profile_location :: "string option"
  profile_bio :: "string option"
  profile_status :: "string option"
  profile_githubusername :: "string option"
  profile_skills :: "string list"
  profile_social :: social
  profile_experience :: "experience list"
  profile_education :: "education list"

text \<open>
  What a handler sends: \<^verbatim>\<open>res.status(n).send(text)\<close> or \<^verbatim>\<open>res.status(n).json(value)\<close>,
  with one constructor for each shape of value the handlers send. An object of string
  fields, such as an entry of the \<^verbatim>\<open>errors\<close> array, is an association list.
  A populated profile carries the \<^verbatim>\<open>name\<close> and \<^verbatim>\<open>avatar\<close> of its user, or
  nothing when that user is gone.
\<close>

type_synonym json_obj = "(string \<times> string) list"

type_synonym populated = "profile \<times> (string \<times> string) option"

datatype body =
    Send string
  | Json_msg string
  | Json_errors "json_obj list"
  | Json_token string
  | Json_post post
  | Json_posts "post list"
  | Json_likes "like list"
  | Json_comments "comment list"
  | Json_profile profile
  | Json_populated populated
  | Json_populated_list "populated list"
  | Json_null

record response =
  status :: nat
  body :: body

definition res_json :: "body \<Rightarrow> response" where
  "res_json b = \<lparr>status = 200, body = b\<rparr>"

section \<open>The world a handler runs in\<close>

text \<open>
  The three collections of the document store, the log of \<^verbatim>\<open>console.error\<close>, the clock
  and the supply of fresh ObjectIds are state. \<open>faults\<close> is the script of what the
  coming awaited collaborator calls do: \<open>None\<close> lets the call work, \<open>Some e\<close>
  makes it reject with \<open>e\<close>, and an exhausted script lets every call work.

  The libraries the handlers call without awaiting are parameters: the cast of a string
  to an ObjectId, the token codec, the configuration, gravatar and bcrypt.
  \<open>castObjectId\<close> gives \<open>None\<close> for a string that does not cast and otherwise the
  string that \<^verbatim>\<open>toString()\<close> gives for the ObjectId it casts to, which may be another
  spelling of the same id (upper-case hexadecimal digits cast to lower-case ones).
  \<^verbatim>\<open>jwt.sign\<close> is called with a callback; it either throws, or invokes the callback
  \<open>During\<close> the call (inside the caller's \<^verbatim>\<open>try\<close> block) or \<open>After\<close> the
  caller has returned, with an error or with a token.
\<close>

record world =
  users :: "user list"
  profiles :: "profile list"
  posts :: "post list"
  faults :: "js_error option list"
  console :: "string list"
  next_oid :: nat
  now :: nat

datatype moment = During | After

datatype sign_outcome =
    Sign_throws js_error
  | Callback moment "js_error option" string

record env =
  castObjectId :: "string \<Rightarrow> oid option"
  newObjectId :: "nat \<Rightarrow> oid"
  jwtSecret :: "string option"
  jwt_verify :: "string \<Rightarrow> string \<Rightarrow> nat \<Rightarrow> js_error + claim"
  jwt_sign :: "oid \<Rightarrow> string \<Rightarrow> nat \<Rightarrow> nat \<Rightarrow> sign_outcome"
  gravatar_url :: "string \<Rightarrow> string"
  bcrypt_genSalt :: "nat \<Rightarrow> string"
  bcrypt_hash :: "string \<Rightarrow> string \<Rightarrow> string"

text \<open>
  A computation returns a value or throws, and changes the world. For a whole handler
  (an \<^verbatim>\<open>async\<close> function) \<open>Inl e\<close> is the exception nobody caught.
\<close>

type_synonym 'a io = "world \<Rightarrow> (js_error + 'a) \<times> world"

definition ret :: "'a \<Rightarrow> 'a io" where
  "ret x w = (Inr x, w)"

definition throw :: "js_error \<Rightarrow> 'a io" where
  "throw e w = (Inl e, w)"

definition bind :: "'a io \<Rightarrow> ('a \<Rightarrow> 'b io) \<Rightarrow> 'b io" where
  "bind m f w = (case m w of (Inl e, w') \<Rightarrow> (Inl e, w') | (Inr x, w') \<Rightarrow> f x w')"

definition try_catch :: "'a io \<Rightarrow> (js_error \<Rightarrow> 'a io) \<Rightarrow> 'a io" where
  "try_catch m h w = (case m w of (Inl e, w') \<Rightarrow> h e w' | (Inr x, w') \<Rightarrow> (Inr x, w'))"

definition await :: "'a io \<Rightarrow> 'a io" where
  "await m w =
     (case faults w of
        [] \<Rightarrow> m w
      | None # fs \<Rightarrow> m (w\<lparr>faults := fs\<rparr>)
      | Some e # fs \<Rightarrow> (Inl e, w\<lparr>faults := fs\<rparr>))"

definition console_error :: "string \<Rightarrow> unit io" where
  "console_error s w = (Inr (), w\<lparr>console := console w @ [s]\<rparr>)"

definition new_oid :: "env \<Rightarrow> oid io" where
  "new_oid env w = (Inr (newObjectId env (next_oid w)), w\<lparr>next_oid := Suc (next_oid w)\<rparr>)"

definition Date_now :: "nat io" where
  "Date_now w = (Inr (now w), w)"

definition typeError :: "string \<Rightarrow> js_error" where
  "typeError m = \<lparr>message = m, kind = None\<rparr>"

definition castError :: js_error where
  "castError = \<lparr>message = ''Cast to ObjectId failed'', kind = Some ''ObjectId''\<rparr>"

section \<open>JavaScript arrays\<close>

text \<open>
  \<^verbatim>\<open>indexOf\<close> gives \<open>-1\<close> for a value that is not there. \<^verbatim>\<open>splice(start, n)\<close>
  counts a negative \<open>start\<close> from the end of the array and clamps it to the array.
\<close>

fun indexOf :: "'a list \<Rightarrow> 'a \<Rightarrow> int" where
  "indexOf [] x = - 1"
| "indexOf (y # ys) x =
     (if y = x then 0 else (let i = indexOf ys x in if i < 0 then - 1 else i + 1))"

definition js_splice :: "int \<Rightarrow> int \<Rightarrow> 'a list \<Rightarrow> 'a list" where
  "js_splice start deleteCount xs =
     (let len = int (length xs);
          s = (if start < 0 then max (len + start) 0 else min start len);
          n = min (max deleteCount 0) (len - s)
      in take (nat s) xs @ drop (nat (s + n)) xs)"

section \<open>The document store\<close>

text \<open>
  \<^verbatim>\<open>findById\<close> and a query on an ObjectId path cast the given string first and throw
  a CastError of kind \<^verbatim>\<open>ObjectId\<close> when it does not cast; then the store is asked
  for the document with the ObjectId the string casts to. A string stored on an
  ObjectId path of a document or subdocument is cast in the same way.
  A query gives the first matching document or \<^verbatim>\<open>null\<close>. Saving a document made with
  \<^verbatim>\<open>new\<close> inserts it; saving or removing a document that was loaded updates or
  deletes the one stored document with its \<^verbatim>\<open>_id\<close>.
\<close>

fun replace_first :: "('a \<Rightarrow> bool) \<Rightarrow> 'a \<Rightarrow> 'a list \<Rightarrow> 'a list" where
  "replace_first P y [] = []"
| "replace_first P y (x # xs) = (if P x then y # xs else x # replace_first P y xs)"

fun remove_first :: "('a \<Rightarrow> bool) \<Rightarrow> 'a list \<Rightarrow> 'a list" where
  "remove_first P [] = []"
| "remove_first P (x # xs) = (if P x then xs else x # remove_first P xs)"

definition cast_oid :: "env \<Rightarrow> string \<Rightarrow> oid io" where
  "cast_oid env i = (case castObjectId env i of None \<Rightarrow> throw castError | Some c \<Rightarrow> ret c)"

definition Post_findById :: "env \<Rightarrow> string \<Rightarrow> post option io" where
  "Post_findById env i =
     bind (cast_oid env i) (\<lambda>c.
     await (\<lambda>w. (Inr (find (\<lambda>p. post_id p = c) (posts w)), w)))"

definition Post_find_sorted :: "post list io" where
  "Post_find_sorted = await (\<lambda>w. (Inr (rev (sort_key post_date (posts w))), w))"

definition Post_insert :: "post \<Rightarrow> post io" where
  "Post_insert p = await (\<lambda>w. (Inr p, w\<lparr>posts := posts w @ [p]\<rparr>))"

definition Post_save :: "post \<Rightarrow> post io" where
  "Post_save p =
     await (\<lambda>w. (Inr p, w\<lparr>posts := replace_first (\<lambda>q. post_id q = post_id p) p (posts w)\<rparr>))"

definition Post_remove :: "post \<Rightarrow> post io" where
  "Post_remove p =
     await (\<lambda>w. (Inr p, w\<lparr>posts := remove_first (\<lambda>q. post_id q = post_id p) (posts w)\<rparr>))"

definition User_findById :: "env \<Rightarrow> string \<Rightarrow> user option io" where
  "User_findById env i =
     bind (cast_oid env i) (\<lambda>c.
     await (\<lambda>w. (Inr (find (\<lambda>u. user_id u = c) (users w)), w)))"

definition User_findOne_email :: "string \<Rightarrow> user option io" where
  "User_findOne_email e = await (\<lambda>w. (Inr (find (\<lambda>u. user_email u = e) (users w)), w))"

definition User_insert :: "user \<Rightarrow> user io" where
  "User_insert u = await (\<lambda>w. (Inr u, w\<lparr>users := users w @ [u]\<rparr>))"

definition User_findOneAndRemove :: "env \<Rightarrow> string \<Rightarrow> user option io" where
  "User_findOneAndRemove env i =
     bind (cast_oid env i) (\<lambda>c.
     await (\<lambda>w. (Inr (find (\<lambda>u. user_id u = c) (users w)),
                  w\<lparr>users := remove_first (\<lambda>u. user_id u = c) (users w)\<rparr>)))"

definition Profile_findOne_user :: "env \<Rightarrow> string \<Rightarrow> profile option io" where
  "Profile_findOne_user env i =
     bind (cast_oid env i) (\<lambda>c.
     await (\<lambda>w. (Inr (find (\<lambda>p. profile_user p = c) (profiles w)), w)))"

definition populate :: "user list \<Rightarrow> profile \<Rightarrow> populated" where
  "populate us p =
     (p, map_option (\<lambda>u. (user_name u, user_avatar u)) (find (\<lambda>u. user_id u = profile_user p) us))"

definition Profile_findOne_user_populate :: "env \<Rightarrow> string \<Rightarrow> populated option io" where
  "Profile_findOne_user_populate env i =
     bind (cast_oid env i) (\<lambda>c.
     await (\<lambda>w. (Inr (map_option (populate (users w))
                        (find (\<lambda>p. profile_user p = c) (profiles w))), w)))"

definition Profile_find_populate :: "populated list io" where
  "Profile_find_populate = await (\<lambda>w. (Inr (map (populate (users w)) (profiles w)), w))"

definition Profile_insert :: "profile \<Rightarrow> profile io" where
  "Profile_insert p = await (\<lambda>w. (Inr p, w\<lparr>profiles := profiles w @ [p]\<rparr>))"

definition Profile_save :: "profile \<Rightarrow> profile io" where
  "Profile_save p =
     await (\<lambda>w. (Inr p,
        w\<lparr>profiles := replace_first (\<lambda>q. profile_id q = profile_id p) p (profiles w)\<rparr>))"

definition Profile_findOneAndRemove :: "env \<Rightarrow> string \<Rightarrow> profile option io" where
  "Profile_findOneAndRemove env i =
     bind (cast_oid env i) (\<lambda>c.
     await (\<lambda>w. (Inr (find (\<lambda>p. profile_user p = c) (profiles w)),
                  w\<lparr>profiles := remove_first (\<lambda>p. profile_user p = c) (profiles w)\<rparr>)))"

section \<open>The catch blocks\<close>

text \<open>
  Every catch block logs \<^verbatim>\<open>e.message\<close>. Most then send status 500 with a text; the
  handlers that look a document up by an id of the URL first answer an exception of
  kind \<^verbatim>\<open>ObjectId\<close> with their not-found response.
\<close>

definition catch_500 :: "string \<Rightarrow> js_error \<Rightarrow> response io" where
  "catch_500 text e =
     bind (console_error (message e)) (\<lambda>_. ret \<lparr>status = 500, body = Send text\<rparr>)"

definition catch_ObjectId :: "nat \<Rightarrow> string \<Rightarrow> string \<Rightarrow> js_error \<Rightarrow> response io" where
  "catch_ObjectId st m text e =
     bind (console_error (message e)) (\<lambda>_.
       if kind e = Some ''ObjectId'' then ret \<lparr>status = st, body = Json_msg m\<rparr>
       else ret \<lparr>status = 500, body = Send text\<rparr>)"

section \<open>The auth middleware\<close>

text \<open>
  \<^verbatim>\<open>req.header('x-auth-token')\<close> is \<open>None\<close> when the header is absent; an absent and
  an empty token are both falsy. \<^verbatim>\<open>config.get\<close> throws for a missing key, inside the
  \<^verbatim>\<open>try\<close> block. \<open>next\<close> is the rest of the route, given the identity the
  middleware stored in \<^verbatim>\<open>req.user\<close>. The handlers behind it are \<^verbatim>\<open>async\<close>
  functions: what they throw rejects their promise and does not reach this
  \<^verbatim>\<open>catch\<close>, which therefore guards the verification only.
\<close>

definition config_get_jwtSecret :: "env \<Rightarrow> js_error + string" where
  "config_get_jwtSecret env =
     (case jwtSecret env of
        None \<Rightarrow> Inl \<lparr>message = ''Configuration property jwtSecret is not defined'', kind = None\<rparr>
      | Some s \<Rightarrow> Inr s)"

definition verify_token :: "env \<Rightarrow> string \<Rightarrow> nat \<Rightarrow> js_error + claim" where
  "verify_token env token t =
     (case config_get_jwtSecret env of
        Inl e \<Rightarrow> Inl e
      | Inr secret \<Rightarrow> jwt_verify env token secret t)"

definition auth :: "env \<Rightarrow> string option \<Rightarrow> (identity \<Rightarrow> response io) \<Rightarrow> response io" where
  "auth env header next w =
     (case header of
        None \<Rightarrow> (Inr \<lparr>status = 401, body = Json_msg ''No token, Authorization denied!''\<rparr>, w)
      | Some token \<Rightarrow>
          if token = [] then
            (Inr \<lparr>status = 401, body = Json_msg ''No token, Authorization denied!''\<rparr>, w)
          else
            (case verify_token env token (now w) of
               Inl e \<Rightarrow> (Inr \<lparr>status = 401, body = Json_msg ''Token is not valid!''\<rparr>, w)
             | Inr decoded \<Rightarrow> next (claim_user decoded) w))"

section \<open>routes/api/posts\<close>

text \<open>
  Each handler is the \<^verbatim>\<open>try\<close> block, named \<open>_try\<close>, under its catch block, after the
  check of \<^verbatim>\<open>validationResult(req)\<close> where the route has validators. The outcome of the
  validators is part of the request: \<open>errors\<close> is \<^verbatim>\<open>errors.array()\<close>.
  Reading a property of \<^verbatim>\<open>null\<close> throws a TypeError. Where a handler stores
  \<^verbatim>\<open>req.user.id\<close> in a document, the document holds its cast, while the handlers'
  own comparisons are with the string \<^verbatim>\<open>req.user.id\<close> itself.
\<close>

definition create_post_try :: "env \<Rightarrow> identity \<Rightarrow> string \<Rightarrow> response io" where
  "create_post_try env req_user text =
     bind (User_findById env (uid req_user)) (\<lambda>user.
       case user of
         None \<Rightarrow> throw (typeError ''Cannot read property name of null'')
       | Some user \<Rightarrow>
           bind (cast_oid env (uid req_user)) (\<lambda>u.
           bind (new_oid env) (\<lambda>i.
           bind Date_now (\<lambda>t.
           bind (Post_insert
                  \<lparr>post_id = i, post_user = u, post_text = text,
                   post_name = user_name user, post_avatar = user_avatar user,
                   post_likes = [], post_comments = [], post_date = t\<rparr>) (\<lambda>post.
           ret (res_json (Json_post post)))))))"

definition create_post :: "env \<Rightarrow> identity \<Rightarrow> json_obj list \<Rightarrow> string \<Rightarrow> response io" where
  "create_post env req_user errors text =
     (if errors \<noteq> [] then ret \<lparr>status = 400, body = Json_errors errors\<rparr>
      else try_catch (create_post_try env req_user text) (catch_500 ''Server Error!''))"

definition get_posts_try :: "response io" where
  "get_posts_try = bind Post_find_sorted (\<lambda>posts. ret (res_json (Json_posts posts)))"

definition get_posts :: "response io" where
  "get_posts = try_catch get_posts_try (catch_500 ''Server Error!'')"

definition get_post_try :: "env \<Rightarrow> string \<Rightarrow> response io" where
  "get_post_try env req_post_id =
     bind (Post_findById env req_post_id) (\<lambda>post.
       case post of
         None \<Rightarrow> ret \<lparr>status = 404, body = Json_msg ''Post not Found!''\<rparr>
       | Some post \<Rightarrow> ret (res_json (Json_post post)))"

definition get_post :: "env \<Rightarrow> string \<Rightarrow> response io" where
  "get_post env req_post_id =
     try_catch (get_post_try env req_post_id)
       (catch_ObjectId 404 ''Post not Found!'' ''Server Error!'')"

definition delete_post_try :: "env \<Rightarrow> identity \<Rightarrow> string \<Rightarrow> response io" where
  "delete_post_try env req_user req_post_id =
     bind (Post_findById env req_post_id) (\<lambda>post.
       case post of
         None \<Rightarrow> ret \<lparr>status = 404, body = Json_msg ''Post not Found!''\<rparr>
       | Some post \<Rightarrow>
           if post_user post \<noteq> uid req_user then
             ret \<lparr>status = 401, body = Json_msg ''User not Authorized!''\<rparr>
           else
             bind (Post_remove post) (\<lambda>_.
             ret (res_json (Json_msg ''Post Removed!''))))"

definition delete_post :: "env \<Rightarrow> identity \<Rightarrow> string \<Rightarrow> response io" where
  "delete_post env req_user req_post_id =
     try_catch (delete_post_try env req_user req_post_id)
       (catch_ObjectId 404 ''Post not Found!'' ''Server Error!'')"

definition like_try :: "env \<Rightarrow> identity \<Rightarrow> string \<Rightarrow> response io" where
  "like_try env req_user req_post_id =
     bind (Post_findById env req_post_id) (\<lambda>post.
     bind (User_findById env (uid req_user)) (\<lambda>user.
       case post of
         None \<Rightarrow> throw (typeError ''Cannot read property likes of null'')
       | Some post \<Rightarrow>
           if length (filter (\<lambda>like. like_user like = uid req_user) (post_likes post)) > 0 then
             ret \<lparr>status = 400, body = Json_msg ''Post already liked!''\<rparr>
           else
             (case user of
                None \<Rightarrow> throw (typeError ''Cannot read property name of null'')
              | Some user \<Rightarrow>
                  bind (cast_oid env (uid req_user)) (\<lambda>u.
                  bind (new_oid env) (\<lambda>i.
                  bind (Post_save
                         (post\<lparr>post_likes :=
                            \<lparr>like_id = i, like_user = u, like_name = user_name user\<rparr>
                              # post_likes post\<rparr>)) (\<lambda>post.
                  ret (res_json (Json_likes (post_likes post)))))))))"

definition like_post :: "env \<Rightarrow> identity \<Rightarrow> string \<Rightarrow> response io" where
  "like_post env req_user req_post_id =
     try_catch (like_try env req_user req_post_id) (catch_500 ''Server Error!'')"

definition unlike_try :: "env \<Rightarrow> identity \<Rightarrow> string \<Rightarrow> response io" where
  "unlike_try env req_user req_post_id =
     bind (Post_findById env req_post_id) (\<lambda>post.
       case post of
         None \<Rightarrow> throw (typeError ''Cannot read property likes of null'')
       | Some post \<Rightarrow>
           if length (filter (\<lambda>like. like_user like = uid req_user) (post_likes post)) = 0 then
             ret \<lparr>status = 400, body = Json_msg ''Post has not been liked yet!''\<rparr>
           else
             (let removeIndex = indexOf (map like_user (post_likes post)) (uid req_user)
              in bind (Post_save (post\<lparr>post_likes := js_splice removeIndex 1 (post_likes post)\<rparr>))
                   (\<lambda>post. ret (res_json (Json_likes (post_likes post))))))"

definition unlike_post :: "env \<Rightarrow> identity \<Rightarrow> string \<Rightarrow> response io" where
  "unlike_post env req_user req_post_id =
     try_catch (unlike_try env req_user req_post_id) (catch_500 ''Server Error!'')"

definition add_comment_try :: "env \<Rightarrow> identity \<Rightarrow> string \<Rightarrow> string \<Rightarrow> response io" where
  "add_comment_try env req_user req_post_id text =
     bind (User_findById env (uid req_user)) (\<lambda>user.
     bind (Post_findById env req_post_id) (\<lambda>post.
       case user of
         None \<Rightarrow> throw (typeError ''Cannot read property name of null'')
       | Some user \<Rightarrow>
           (case post of
              None \<Rightarrow> throw (typeError ''Cannot read property comments of null'')
            | Some post \<Rightarrow>
                bind (cast_oid env (uid req_user)) (\<lambda>u.
                bind (new_oid env) (\<lambda>i.
                bind Date_now (\<lambda>t.
                bind (Post_save
                       (post\<lparr>post_comments :=
                          \<lparr>comment_id = i, comment_user = u, comment_text = text,
                           comment_name = user_name user, comment_avatar = user_avatar user,
                           comment_date = t\<rparr> # post_comments post\<rparr>)) (\<lambda>post.
                ret (res_json (Json_comments (post_comments post))))))))))"

definition add_comment ::
  "env \<Rightarrow> identity \<Rightarrow> string \<Rightarrow> json_obj list \<Rightarrow> string \<Rightarrow> response io" where
  "add_comment env req_user req_post_id errors text =
     (if errors \<noteq> [] then ret \<lparr>status = 400, body = Json_errors errors\<rparr>
      else try_catch (add_comment_try env req_user req_post_id text) (catch_500 ''Server Error!''))"

text \<open>
  The removal index of the comment route maps \<^verbatim>\<open>comment.idnpm.toString()\<close> over the
  comments. No comment has a property \<^verbatim>\<open>idnpm\<close>, so the callback throws a TypeError at
  the first comment it is given; only over an empty array does the map return.
\<close>

definition map_idnpm_toString :: "comment list \<Rightarrow> string list io" where
  "map_idnpm_toString cs =
     (case cs of
        [] \<Rightarrow> ret []
      | c # _ \<Rightarrow> throw (typeError ''Cannot read property toString of undefined''))"

definition delete_comment_try :: "env \<Rightarrow> identity \<Rightarrow> string \<Rightarrow> string \<Rightarrow> response io" where
  "delete_comment_try env req_user req_post_id req_comment_id =
     bind (Post_findById env req_post_id) (\<lambda>post.
       case post of
         None \<Rightarrow> throw (typeError ''Cannot read property comments of null'')
       | Some post \<Rightarrow>
           (case find (\<lambda>comment. comment_id comment = req_comment_id) (post_comments post) of
              None \<Rightarrow> ret \<lparr>status = 404, body = Json_msg ''Comment does not exist!''\<rparr>
            | Some comment \<Rightarrow>
                if comment_user comment \<noteq> uid req_user then
                  ret \<lparr>status = 401, body = Json_msg ''User not Authorized!''\<rparr>
                else
                  bind (map_idnpm_toString (post_comments post)) (\<lambda>ids.
                  let removeIndex = indexOf ids req_comment_id
                  in bind (Post_save
                            (post\<lparr>post_comments := js_splice removeIndex 1 (post_comments post)\<rparr>))
                       (\<lambda>post. ret (res_json (Json_comments (post_comments post)))))))"

definition delete_comment :: "env \<Rightarrow> identity \<Rightarrow> string \<Rightarrow> string \<Rightarrow> response io" where
  "delete_comment env req_user req_post_id req_comment_id =
     try_catch (delete_comment_try env req_user req_post_id req_comment_id)
       (catch_500 ''Server Error!'')"

section \<open>routes/api/users\<close>

text \<open>
  Registration answers from the callback of \<^verbatim>\<open>jwt.sign\<close>. The callback rethrows the
  error it is given and otherwise sends the token. Invoked during the call it runs
  inside the \<^verbatim>\<open>try\<close> block; invoked after the handler has returned it runs outside
  it, and what it throws then is caught by nobody. The \<^verbatim>\<open>try\<close>/\<^verbatim>\<open>catch\<close>
  statement therefore ends either with a response sent or with the callback pending.
\<close>

datatype pending = Sent response | Pending "js_error option" string

definition sent :: "response io \<Rightarrow> pending io" where
  "sent m = bind m (\<lambda>r. ret (Sent r))"

definition sign_callback :: "js_error option \<Rightarrow> string \<Rightarrow> response io" where
  "sign_callback e token =
     (case e of Some e \<Rightarrow> throw e | None \<Rightarrow> ret (res_json (Json_token token)))"

definition register_try :: "env \<Rightarrow> string \<Rightarrow> string \<Rightarrow> string \<Rightarrow> pending io" where
  "register_try env name email password =
     bind (User_findOne_email email) (\<lambda>user.
       case user of
         Some _ \<Rightarrow>
           ret (Sent \<lparr>status = 400, body = Json_errors [[(''msg'', ''User Already exists!'')]]\<rparr>)
       | None \<Rightarrow>
           (let avatar = gravatar_url env email
            in bind (new_oid env) (\<lambda>i.
               bind (await (ret (bcrypt_genSalt env 10))) (\<lambda>salt.
               bind (await (ret (bcrypt_hash env password salt))) (\<lambda>hash.
               bind (User_insert
                      \<lparr>user_id = i, user_name = name, user_email = email,
                       user_password = hash, user_avatar = avatar\<rparr>) (\<lambda>user.
               case config_get_jwtSecret env of
                 Inl e \<Rightarrow> throw e
               | Inr secret \<Rightarrow>
                   bind Date_now (\<lambda>t.
                   case jwt_sign env (user_id user) secret 36000 t of
                     Sign_throws e \<Rightarrow> throw e
                   | Callback During e token \<Rightarrow> sent (sign_callback e token)
                   | Callback After e token \<Rightarrow> ret (Pending e token))))))))"

definition register ::
  "env \<Rightarrow> json_obj list \<Rightarrow> string \<Rightarrow> string \<Rightarrow> string \<Rightarrow> response io" where
  "register env errors name email password =
     (if errors \<noteq> [] then ret \<lparr>status = 400, body = Json_errors errors\<rparr>
      else
        bind (try_catch (register_try env name email password)
                (\<lambda>e. sent (catch_500 ''Server Error'' e))) (\<lambda>k.
        case k of
          Sent r \<Rightarrow> ret r
        | Pending e token \<Rightarrow> sign_callback e token))"

section \<open>routes/api/profile\<close>

text \<open>
  A body field is a string or absent; a field is truthy when it is present and not
  the empty string. \<^verbatim>\<open>split(',')\<close> cuts at every comma and \<^verbatim>\<open>trim\<close> drops white
  space at both ends (of the code units below 256: tab, line feed, vertical tab, form
  feed, carriage return, space and no-break space).

  The \<^verbatim>\<open>skills\<close> field is the one field on which the handler calls a method of
  strings, before its \<^verbatim>\<open>try\<close> block. It is a string, or absent or falsy, or a truthy
  value that is not a string (a number, an array, an object), which has no \<^verbatim>\<open>split\<close>.
\<close>

datatype skills_field = No_skills | Skills string | Not_a_string

definition truthy :: "string option \<Rightarrow> bool" where
  "truthy x = (x \<noteq> None \<and> x \<noteq> Some [])"

definition if_truthy :: "string option \<Rightarrow> string option" where
  "if_truthy x = (if truthy x then x else None)"

fun split_comma :: "string \<Rightarrow> string list" where
  "split_comma [] = [[]]"
| "split_comma (c # cs) =
     (if c = CHR '','' then [] # split_comma cs
      else (case split_comma cs of [] \<Rightarrow> [[c]] | x # xs \<Rightarrow> (c # x) # xs))"

definition white_space :: "char \<Rightarrow> bool" where
  "white_space c = (c \<in> {CHR 0x09, CHR 0x0A, CHR 0x0B, CHR 0x0C, CHR 0x0D, CHR 0x20, CHR 0xA0})"

definition trim :: "string \<Rightarrow> string" where
  "trim s = rev (dropWhile white_space (rev (dropWhile white_space s)))"

record profile_body =
  body_company :: "string option"
  body_website :: "string option"
  body_location :: "string option"
  body_bio :: "string option"
  body_status :: "string option"
  body_githubusername :: "string option"
  body_skills :: skills_field
  body_youtube :: "string option"
  body_facebook :: "string option"
  body_twitter :: "string option"
  body_instagram :: "string option"
  body_linkedin :: "string option"

record profileFields =
  pf_user :: oid
  pf_company :: "string option"
  pf_website :: "string option"
  pf_location :: "string option"
  pf_bio :: "string option"
  pf_status :: "string option"
  pf_githubusername :: "string option"
  pf_skills :: "string list option"
  pf_social :: social

definition split_skills :: "skills_field \<Rightarrow> js_error + string list option" where
  "split_skills skills =
     (case skills of
        No_skills \<Rightarrow> Inr None
      | Skills s \<Rightarrow> if s = [] then Inr None else Inr (Some (map trim (split_comma s)))
      | Not_a_string \<Rightarrow> Inl (typeError ''skills.split is not a function''))"

definition build_profileFields ::
  "identity \<Rightarrow> profile_body \<Rightarrow> string list option \<Rightarrow> profileFields" where
  "build_profileFields req_user b skills =
     \<lparr>pf_user = uid req_user,
      pf_company = if_truthy (body_company b),
      pf_website = if_truthy (body_website b),
      pf_location = if_truthy (body_location b),
      pf_bio = if_truthy (body_bio b),
      pf_status = if_truthy (body_status b),
      pf_githubusername = if_truthy (body_githubusername b),
      pf_skills = skills,
      pf_social =
        \<lparr>youtube = if_truthy (body_youtube b), facebook = if_truthy (body_facebook b),
         twitter = if_truthy (body_twitter b), instagram = if_truthy (body_instagram b),
         linkedin = if_truthy (body_linkedin b)\<rparr>\<rparr>"

definition or_else :: "'a option \<Rightarrow> 'a option \<Rightarrow> 'a option" where
  "or_else new old = (case new of None \<Rightarrow> old | Some v \<Rightarrow> Some v)"

definition set_profileFields :: "oid \<Rightarrow> profileFields \<Rightarrow> profile \<Rightarrow> profile" where
  "set_profileFields u pf p =
     p\<lparr>profile_user := u,
       profile_company := or_else (pf_company pf) (profile_company p),
       profile_website := or_else (pf_website pf) (profile_website p),
       profile_location := or_else (pf_location pf) (profile_location p),
       profile_bio := or_else (pf_bio pf) (profile_bio p),
       profile_status := or_else (pf_status pf) (profile_status p),
       profile_githubusername := or_else (pf_githubusername pf) (profile_githubusername p),
       profile_skills := (case pf_skills pf of None \<Rightarrow> profile_skills p | Some s \<Rightarrow> s),
       profile_social := pf_social pf\<rparr>"

definition new_Profile :: "oid \<Rightarrow> oid \<Rightarrow> profileFields \<Rightarrow> profile" where
  "new_Profile i u pf =
     \<lparr>profile_id = i, profile_user = u, profile_company = pf_company pf,
      profile_website = pf_website pf, profile_location = pf_location pf,
      profile_bio = pf_bio pf, profile_status = pf_status pf,
      profile_githubusername = pf_githubusername pf,
      profile_skills = (case pf_skills pf of None \<Rightarrow> [] | Some s \<Rightarrow> s),
      profile_social = pf_social pf, profile_experience = [], profile_education = []\<rparr>"

definition Profile_findOneAndUpdate :: "env \<Rightarrow> string \<Rightarrow> profileFields \<Rightarrow> profile option io" where
  "Profile_findOneAndUpdate env i pf =
     bind (cast_oid env i) (\<lambda>c.
     bind (cast_oid env (pf_user pf)) (\<lambda>u.
     await (\<lambda>w.
       case find (\<lambda>p. profile_user p = c) (profiles w) of
         None \<Rightarrow> (Inr None, w)
       | Some p \<Rightarrow>
           (Inr (Some (set_profileFields u pf p)),
            w\<lparr>profiles :=
                replace_first (\<lambda>p. profile_user p = c) (set_profileFields u pf p)
                  (profiles w)\<rparr>))))"

definition profile_me_try :: "env \<Rightarrow> identity \<Rightarrow> response io" where
  "profile_me_try env req_user =
     bind (Profile_findOne_user_populate env (uid req_user)) (\<lambda>profile.
       case profile of
         None \<Rightarrow> ret \<lparr>status = 400, body = Json_msg ''There is no profile for this user!''\<rparr>
       | Some profile \<Rightarrow> ret (res_json (Json_populated profile)))"

definition profile_me :: "env \<Rightarrow> identity \<Rightarrow> response io" where
  "profile_me env req_user = try_catch (profile_me_try env req_user) (catch_500 ''Server Error'')"

definition upsert_profile_try :: "env \<Rightarrow> identity \<Rightarrow> profileFields \<Rightarrow> response io" where
  "upsert_profile_try env req_user pf =
     bind (Profile_findOne_user env (uid req_user)) (\<lambda>profile.
       case profile of
         Some _ \<Rightarrow>
           bind (Profile_findOneAndUpdate env (uid req_user) pf) (\<lambda>profile.
           ret (res_json (case profile of None \<Rightarrow> Json_null | Some p \<Rightarrow> Json_profile p)))
       | None \<Rightarrow>
           bind (cast_oid env (pf_user pf)) (\<lambda>u.
           bind (new_oid env) (\<lambda>i.
           bind (Profile_insert (new_Profile i u pf)) (\<lambda>profile.
           ret (res_json (Json_profile profile))))))"

definition upsert_profile ::
  "env \<Rightarrow> identity \<Rightarrow> json_obj list \<Rightarrow> profile_body \<Rightarrow> response io" where
  "upsert_profile env req_user errors b =
     (if errors \<noteq> [] then ret \<lparr>status = 400, body = Json_errors errors\<rparr>
      else
        (case split_skills (body_skills b) of
           Inl e \<Rightarrow> throw e
         | Inr skills \<Rightarrow>
             try_catch (upsert_profile_try env req_user (build_profileFields req_user b skills))
               (catch_500 ''Server Error'')))"

definition get_profiles_try :: "response io" where
  "get_profiles_try =
     bind Profile_find_populate (\<lambda>profiles. ret (res_json (Json_populated_list profiles)))"

definition get_profiles :: "response io" where
  "get_profiles = try_catch get_profiles_try (catch_500 ''Server Error'')"

definition profile_by_user_try :: "env \<Rightarrow> string \<Rightarrow> response io" where
  "profile_by_user_try env req_user_id =
     bind (Profile_findOne_user_populate env req_user_id) (\<lambda>profile.
       case profile of
         None \<Rightarrow> ret \<lparr>status = 400, body = Json_msg ''Profile not found!''\<rparr>
       | Some profile \<Rightarrow> ret (res_json (Json_populated profile)))"

definition profile_by_user :: "env \<Rightarrow> string \<Rightarrow> response io" where
  "profile_by_user env req_user_id =
     try_catch (profile_by_user_try env req_user_id)
       (catch_ObjectId 400 ''Profile not found!'' ''Server Error'')"

definition delete_account_try :: "env \<Rightarrow> identity \<Rightarrow> response io" where
  "delete_account_try env req_user =
     bind (Profile_findOneAndRemove env (uid req_user)) (\<lambda>_.
     bind (User_findOneAndRemove env (uid req_user)) (\<lambda>_.
     ret (res_json (Json_msg ''User Removed!''))))"

definition delete_account :: "env \<Rightarrow> identity \<Rightarrow> response io" where
  "delete_account env req_user =
     try_catch (delete_account_try env req_user) (catch_500 ''Server Error'')"

definition add_experience_try :: "env \<Rightarrow> identity \<Rightarrow> newExp \<Rightarrow> response io" where
  "add_experience_try env req_user newExp =
     bind (Profile_findOne_user env (uid req_user)) (\<lambda>profile.
       case profile of
         None \<Rightarrow> throw (typeError ''Cannot read property experience of null'')
       | Some profile \<Rightarrow>
           bind (new_oid env) (\<lambda>i.
           bind (Profile_save
                  (profile\<lparr>profile_experience :=
                     \<lparr>exp_id = i, exp_title = title newExp, exp_company = company newExp,
                      exp_from = from_date newExp, exp_to = to_date newExp,
                      exp_location = location newExp, exp_current = current newExp,
                      exp_description = description newExp\<rparr> # profile_experience profile\<rparr>))
             (\<lambda>profile. ret (res_json (Json_profile profile)))))"

definition add_experience ::
  "env \<Rightarrow> identity \<Rightarrow> json_obj list \<Rightarrow> newExp \<Rightarrow> response io" where
  "add_experience env req_user errors newExp =
     (if errors \<noteq> [] then ret \<lparr>status = 400, body = Json_errors errors\<rparr>
      else try_catch (add_experience_try env req_user newExp) (catch_500 ''Server Error!''))"

definition delete_experience_try :: "env \<Rightarrow> identity \<Rightarrow> string \<Rightarrow> response io" where
  "delete_experience_try env req_user req_exp_id =
     bind (Profile_findOne_user env (uid req_user)) (\<lambda>profile.
       case profile of
         None \<Rightarrow> throw (typeError ''Cannot read property experience of null'')
       | Some profile \<Rightarrow>
           (let removeIndex = indexOf (map exp_id (profile_experience profile)) req_exp_id
            in bind (Profile_save
                      (profile\<lparr>profile_experience :=
                         js_splice removeIndex 1 (profile_experience profile)\<rparr>))
                 (\<lambda>profile. ret (res_json (Json_profile profile)))))"

definition delete_experience :: "env \<Rightarrow> identity \<Rightarrow> string \<Rightarrow> response io" where
  "delete_experience env req_user req_exp_id =
     try_catch (delete_experience_try env req_user req_exp_id) (catch_500 ''Server Error!'')"

definition add_education_try :: "env \<Rightarrow> identity \<Rightarrow> newEdu \<Rightarrow> response io" where
  "add_education_try env req_user newEdu =
     bind (Profile_findOne_user env (uid req_user)) (\<lambda>profile.
       case profile of
         None \<Rightarrow> throw (typeError ''Cannot read property education of null'')
       | Some profile \<Rightarrow>
           bind (new_oid env) (\<lambda>i.
           bind (Profile_save
                  (profile\<lparr>profile_education :=
                     \<lparr>edu_id = i, edu_school = school newEdu, edu_degree = degree newEdu,
                      edu_fieldofstudy = fieldofstudy newEdu, edu_from = edu_from_date newEdu,
                      edu_to = edu_to_date newEdu, edu_current = edu_is_current newEdu,
                      edu_description = edu_descr newEdu\<rparr> # profile_education profile\<rparr>))
             (\<lambda>profile. ret (res_json (Json_profile profile)))))"

definition add_education ::
  "env \<Rightarrow> identity \<Rightarrow> json_obj list \<Rightarrow> newEdu \<Rightarrow> response io" where
  "add_education env req_user errors newEdu =
     (if errors \<noteq> [] then ret \<lparr>status = 400, body = Json_errors errors\<rparr>
      else try_catch (add_education_try env req_user newEdu) (catch_500 ''Server Error!''))"

definition delete_education_try :: "env \<Rightarrow> identity \<Rightarrow> string \<Rightarrow> response io" where
  "delete_education_try env req_user req_edu_id =
     bind (Profile_findOne_user env (uid req_user)) (\<lambda>profile.
       case profile of
         None \<Rightarrow> throw (typeError ''Cannot read property education of null'')
       | Some profile \<Rightarrow>
           (let removeIndex = indexOf (map edu_id (profile_education profile)) req_edu_id
            in bind (Profile_save
                      (profile\<lparr>profile_education :=
                         js_splice removeIndex 1 (profile_education profile)\<rparr>))
                 (\<lambda>profile. ret (res_json (Json_profile profile)))))"

definition delete_education :: "env \<Rightarrow> identity \<Rightarrow> string \<Rightarrow> response io" where
  "delete_education env req_user req_edu_id =
     try_catch (delete_education_try env req_user req_edu_id) (catch_500 ''Server Error!'')"

section \<open>server.js: the routes\<close>

text \<open>
  A request is the route it matches with its URL parameters, its body and the outcome
  of its validators. The private routes run behind the auth middleware and carry the
  \<^verbatim>\<open>x-auth-token\<close> header.
\<close>

datatype public_request =
    POST_users "json_obj list" string string string
  | GET_profile
  | GET_profile_user string

datatype private_request =
    POST_posts "json_obj list" string
  | GET_posts
  | GET_post string
  | DELETE_post string
  | PUT_like string
  | PUT_unlike string
  | POST_comment string "json_obj list" string
  | DELETE_comment string string
  | GET_profile_me
  | POST_profile "json_obj list" profile_body
  | DELETE_profile
  | PUT_experience "json_obj list" newExp
  | DELETE_experience string
  | PUT_education "json_obj list" newEdu
  | DELETE_education string

datatype request = Public public_request | Private "string option" private_request

fun public_handler :: "env \<Rightarrow> public_request \<Rightarrow> response io" where
  "public_handler env (POST_users errors name email password) =
     register env errors name email password"
| "public_handler env GET_profile = get_profiles"
| "public_handler env (GET_profile_user req_user_id) = profile_by_user env req_user_id"

fun private_handler :: "env \<Rightarrow> identity \<Rightarrow> private_request \<Rightarrow> response io" where
  "private_handler env req_user (POST_posts errors text) = create_post env req_user errors text"
| "private_handler env req_user GET_posts = get_posts"
| "private_handler env req_user (GET_post req_post_id) = get_post env req_post_id"
| "private_handler env req_user (DELETE_post req_post_id) = delete_post env req_user req_post_id"
| "private_handler env req_user (PUT_like req_post_id) = like_post env req_user req_post_id"
| "private_handler env req_user (PUT_unlike req_post_id) = unlike_post env req_user req_post_id"
| "private_handler env req_user (POST_comment req_post_id errors text) =
     add_comment env req_user req_post_id errors text"
| "private_handler env req_user (DELETE_comment req_post_id req_comment_id) =
     delete_comment env req_user req_post_id req_comment_id"
| "private_handler env req_user GET_profile_me = profile_me env req_user"
| "private_handler env req_user (POST_profile errors b) = upsert_profile env req_user errors b"
| "private_handler env req_user DELETE_profile = delete_account env req_user"
| "private_handler env req_user (PUT_experience errors newExp) =
     add_experience env req_user errors newExp"
| "private_handler env req_user (DELETE_experience req_exp_id) =
     delete_experience env req_user req_exp_id"
| "private_handler env req_user (PUT_education errors newEdu) =
     add_education env req_user errors newEdu"
| "private_handler env req_user (DELETE_education req_edu_id) =
     delete_education env req_user req_edu_id"

fun serve :: "env \<Rightarrow> request \<Rightarrow> response io" where
  "serve env (Public r) = public_handler env r"
| "serve env (Private header r) = auth env header (\<lambda>req_user. private_handler env req_user r)"

text \<open>
  The exception with which the \<^verbatim>\<open>try\<close> block of a request's handler ends, if the
  handler gets to the block and the block throws.
\<close>

definition thrown :: "(js_error + 'a) \<times> world \<Rightarrow> js_error option" where
  "thrown r = (case fst r of Inl e \<Rightarrow> Some e | Inr _ \<Rightarrow> None)"

fun public_try_throws :: "env \<Rightarrow> public_request \<Rightarrow> world \<Rightarrow> js_error option" where
  "public_try_throws env (POST_users errors name email password) w =
     (if errors \<noteq> [] then None else thrown (register_try env name email password w))"
| "public_try_throws env GET_profile w = thrown (get_profiles_try w)"
| "public_try_throws env (GET_profile_user req_user_id) w = thrown (profile_by_user_try env req_user_id w)"

fun private_try_throws ::
  "env \<Rightarrow> identity \<Rightarrow> private_request \<Rightarrow> world \<Rightarrow> js_error option" where
  "private_try_throws env req_user (POST_posts errors text) w =
     (if errors \<noteq> [] then None else thrown (create_post_try env req_user text w))"
| "private_try_throws env req_user GET_posts w = thrown (get_posts_try w)"
| "private_try_throws env req_user (GET_post req_post_id) w = thrown (get_post_try env req_post_id w)"
| "private_try_throws env req_user (DELETE_post req_post_id) w =
     thrown (delete_post_try env req_user req_post_id w)"
| "private_try_throws env req_user (PUT_like req_post_id) w = thrown (like_try env req_user req_post_id w)"
| "private_try_throws env req_user (PUT_unlike req_post_id) w =
     thrown (unlike_try env req_user req_post_id w)"
| "private_try_throws env req_user (POST_comment req_post_id errors text) w =
     (if errors \<noteq> [] then None else thrown (add_comment_try env req_user req_post_id text w))"
| "private_try_throws env req_user (DELETE_comment req_post_id req_comment_id) w =
     thrown (delete_comment_try env req_user req_post_id req_comment_id w)"
| "private_try_throws env req_user GET_profile_me w = thrown (profile_me_try env req_user w)"
| "private_try_throws env req_user (POST_profile errors b) w =
     (if errors \<noteq> [] then None
      else
        (case split_skills (body_skills b) of
           Inl e \<Rightarrow> None
         | Inr skills \<Rightarrow>
             thrown (upsert_profile_try env req_user (build_profileFields req_user b skills) w)))"
| "private_try_throws env req_user DELETE_profile w = thrown (delete_account_try env req_user w)"
| "private_try_throws env req_user (PUT_experience errors newExp) w =
     (if errors \<noteq> [] then None else thrown (add_experience_try env req_user newExp w))"
| "private_try_throws env req_user (DELETE_experience req_exp_id) w =
     thrown (delete_experience_try env req_user req_exp_id w)"
| "private_try_throws env req_user (PUT_education errors newEdu) w =
     (if errors \<noteq> [] then None else thrown (add_education_try env req_user newEdu w))"
| "private_try_throws env req_user (DELETE_education req_edu_id) w =
     thrown (delete_education_try env req_user req_edu_id w)"

section \<open>A small deployment\<close>

text \<open>
  Concrete collaborators and a concrete store, on which the theorems below are
  instantiated: two users, one post of the first user with one comment of hers, and
  her profile with two experience entries and one education entry. Strings of two or
  more characters cast to an ObjectId, and \<^verbatim>\<open>P1\<close> is another spelling of the id
  \<^verbatim>\<open>p1\<close>.
\<close>

definition demo_env :: env where
  "demo_env =
     \<lparr>castObjectId = (\<lambda>s. if s = ''P1'' then Some ''p1''
                           else if 2 \<le> length s then Some s else None),
      newObjectId = (\<lambda>n. if n < 4 then [''uA'', ''uB'', ''p1'', ''l1''] ! n
                          else CHR ''n'' # replicate n CHR ''+''),
      jwtSecret = Some ''secret'',
      jwt_verify = (\<lambda>token secret t.
        if token = ''tokenA'' then Inr \<lparr>claim_user = \<lparr>uid = ''uA''\<rparr>\<rparr>
        else if token = ''tokenB'' then Inr \<lparr>claim_user = \<lparr>uid = ''uB''\<rparr>\<rparr>
        else Inl \<lparr>message = ''jwt malformed'', kind = None\<rparr>),
      jwt_sign = (\<lambda>i secret ttl t. Callback After None (''token-'' @ i)),
      gravatar_url = (\<lambda>email. ''//gravatar/'' @ email),
      bcrypt_genSalt = (\<lambda>rounds. ''salt''),
      bcrypt_hash = (\<lambda>password salt. salt @ password)\<rparr>"

definition alice :: user where
  "alice = \<lparr>user_id = ''uA'', user_name = ''Alice'', user_email = ''a@x.com'',
            user_password = ''saltsecret1'', user_avatar = ''//gravatar/a@x.com''\<rparr>"

definition bob :: user where
  "bob = \<lparr>user_id = ''uB'', user_name = ''Bob'', user_email = ''b@x.com'',
          user_password = ''saltsecret2'', user_avatar = ''//gravatar/b@x.com''\<rparr>"

definition demo_comment :: comment where
  "demo_comment = \<lparr>comment_id = ''c1'', comment_user = ''uA'', comment_text = ''first'',
                   comment_name = ''Alice'', comment_avatar = ''//gravatar/a@x.com'',
                   comment_date = 2\<rparr>"

definition demo_post :: post where
  "demo_post = \<lparr>post_id = ''p1'', post_user = ''uA'', post_text = ''hello'',
                post_name = ''Alice'', post_avatar = ''//gravatar/a@x.com'',
                post_likes = [], post_comments = [demo_comment], post_date = 1\<rparr>"

definition demo_exp :: "oid \<Rightarrow> experience" where
  "demo_exp i = \<lparr>exp_id = i, exp_title = Some ''Engineer'', exp_company = Some ''ACME'',
                 exp_from = Some ''2019-01-01'', exp_to = None, exp_location = None,
                 exp_current = Some True, exp_description = None\<rparr>"

definition demo_edu :: education where
  "demo_edu = \<lparr>edu_id = ''d1'', edu_school = Some ''MIT'', edu_degree = Some ''BSc'',
               edu_fieldofstudy = Some ''CS'', edu_from = Some ''2015-09-01'',
               edu_to = Some ''2018-06-30'', edu_current = None, edu_description = None\<rparr>"

definition demo_profile :: profile where
  "demo_profile =
     \<lparr>profile_id = ''f1'', profile_user = ''uA'', profile_company = None,
      profile_website = None, profile_location = None, profile_bio = None,
      profile_status = Some ''Developer'', profile_githubusername = None,
      profile_skills = [''js''],
      profile_social = \<lparr>youtube = None, facebook = None, twitter = None, instagram = None,
                         linkedin = None\<rparr>,
      profile_experience = [demo_exp ''e1'', demo_exp ''e2''],
      profile_education = [demo_edu]\<rparr>"

definition demo_world :: world where
  "demo_world = \<lparr>users = [alice, bob], profiles = [demo_profile], posts = [demo_post],
                 faults = [], console = [], next_oid = 4, now = 5\<rparr>"

definition demo_body :: profile_body where
  "demo_body =
     \<lparr>body_company = None, body_website = None, body_location = None, body_bio = None,
      body_status = Some ''Developer'', body_githubusername = None,
      body_skills = Skills ''js, html'', body_youtube = None, body_facebook = None,
      body_twitter = None, body_instagram = None, body_linkedin = None\<rparr>"

text \<open>
  The same collaborators with a \<^verbatim>\<open>jwt.sign\<close> that reports an error to its callback
  after the caller has returned.
\<close>

definition late_env :: env where
  "late_env =
     demo_env\<lparr>jwt_sign := (\<lambda>i secret ttl t.
       Callback After (Some \<lparr>message = ''secretOrPrivateKey must be a string'', kind = None\<rparr>) [])\<rparr>"







section \<open>Reachable worlds and predicates on computations\<close>



text \<open>
  \<open>likes_once\<close> says that no post of the store has two likes of one user.
  \<open>keeps m Q\<close> says that the computation \<open>m\<close> preserves \<open>likes_once\<close>, whether it
  returns or throws, and that what it returns satisfies \<open>Q\<close>; \<open>results m Q\<close> says
  only the latter.
\<close>

definition likes_once :: "world \<Rightarrow> bool" where
  "likes_once w = (\<forall>p \<in> set (posts w). distinct (map like_user (post_likes p)))"

definition keeps :: "'a io \<Rightarrow> ('a \<Rightarrow> bool) \<Rightarrow> bool" where
  "keeps m Q =
     (\<forall>w. likes_once w \<longrightarrow> likes_once (snd (m w)) \<and> (\<forall>x. fst (m w) = Inr x \<longrightarrow> Q x))"

definition results :: "'a io \<Rightarrow> ('a \<Rightarrow> bool) \<Rightarrow> bool" where
  "results m Q = (\<forall>w x. fst (m w) = Inr x \<longrightarrow> Q x)"

lemmas io_defs = ret_def throw_def bind_def try_catch_def await_def

lemmas demo_defs = demo_env_def demo_world_def demo_post_def demo_comment_def alice_def bob_def
  demo_profile_def demo_exp_def demo_edu_def

section \<open>Lists and the store\<close>

lemma find_Some_mem: "find P xs = Some x \<Longrightarrow> x \<in> set xs \<and> P x"
  by (induction xs) (auto split: if_splits)

lemma indexOf_absent: "x \<notin> set xs \<Longrightarrow> indexOf xs x = - 1"
  by (induction xs) auto

lemma js_splice_last: "xs \<noteq> [] \<Longrightarrow> js_splice (- 1) 1 xs = butlast xs"
proof -
  assume "xs \<noteq> []"
  then have "length xs \<ge> 1" by (cases xs) auto
  then show ?thesis
    by (simp add: js_splice_def Let_def butlast_conv_take nat_diff_distrib' max_def min_def)
qed

lemma js_splice_head: "js_splice 0 1 (x # xs) = xs"
  by (simp add: js_splice_def Let_def)

lemma replace_first_undo:
  "find P xs = Some x \<Longrightarrow> P y \<Longrightarrow> replace_first P x (replace_first P y xs) = xs"
  by (induction xs) (auto split: if_splits)

lemma find_replace_first:
  "find P xs = Some x \<Longrightarrow> P y \<Longrightarrow> find P (replace_first P y xs) = Some y"
  by (induction xs) (auto split: if_splits)

section \<open>The auth middleware\<close>

text \<open>
  Behind a token that verifies, a private route is its handler run with the identity
  of the token.
\<close>

lemma serve_authenticated:
  assumes "token \<noteq> []" and "verify_token env token (now w) = Inr decoded"
  shows "serve env (Private (Some token) r) w = private_handler env (claim_user decoded) r w"
  using assms by (simp add: auth_def)

text \<open>
  Claim C5. A request to a private route whose \<^verbatim>\<open>x-auth-token\<close> header is absent or
  empty is answered by the middleware with status 401 and the body
  \<^verbatim>\<open>{ msg: 'No token, Authorization denied!' }\<close>. The answer and the world after it are
  the same whatever the rest of the route is: the route handler does not run.
\<close>

theorem auth_no_token:
  assumes "header = None \<or> header = Some []"
  shows "auth env header next w =
           (Inr \<lparr>status = 401, body = Json_msg ''No token, Authorization denied!''\<rparr>, w)
         \<and> serve env (Private header r) w =
           (Inr \<lparr>status = 401, body = Json_msg ''No token, Authorization denied!''\<rparr>, w)"
  using assms by (auto simp: auth_def)

theorem auth_no_token_witness:
  "serve demo_env (Private None (DELETE_post ''p1'')) demo_world =
     (Inr \<lparr>status = 401, body = Json_msg ''No token, Authorization denied!''\<rparr>, demo_world)
   \<and> serve demo_env (Private (Some []) (DELETE_post ''p1'')) demo_world =
     (Inr \<lparr>status = 401, body = Json_msg ''No token, Authorization denied!''\<rparr>, demo_world)"
  using auth_no_token [of None demo_env "\<lambda>u. ret \<lparr>status = 200, body = Json_null\<rparr>" demo_world
      "DELETE_post ''p1''"]
    auth_no_token [of "Some []" demo_env "\<lambda>u. ret \<lparr>status = 200, body = Json_null\<rparr>"
      demo_world "DELETE_post ''p1''"]
  by simp

text \<open>
  Claim C6. For a request with a non-empty token: when \<^verbatim>\<open>jwt.verify\<close> throws, whatever
  the error, the middleware answers status 401 with the body
  \<^verbatim>\<open>{ msg: 'Token is not valid!' }\<close> and the rest of the route does not run; when it
  returns the decoded claim, the rest of the route runs with \<^verbatim>\<open>req.user\<close> set to the
  identity of the claim.
\<close>

theorem auth_verify:
  assumes "token \<noteq> []" and "jwtSecret env = Some secret"
  shows "auth env (Some token) next w =
           (case jwt_verify env token secret (now w) of
              Inl e \<Rightarrow> (Inr \<lparr>status = 401, body = Json_msg ''Token is not valid!''\<rparr>, w)
            | Inr decoded \<Rightarrow> next (claim_user decoded) w)"
  using assms by (simp add: auth_def verify_token_def config_get_jwtSecret_def)

theorem auth_verify_witness:
  "auth demo_env (Some ''forged'') (\<lambda>u. ret \<lparr>status = 200, body = Json_msg (uid u)\<rparr>) demo_world =
     (Inr \<lparr>status = 401, body = Json_msg ''Token is not valid!''\<rparr>, demo_world)
   \<and> auth demo_env (Some ''tokenB'') (\<lambda>u. ret \<lparr>status = 200, body = Json_msg (uid u)\<rparr>) demo_world =
     (Inr \<lparr>status = 200, body = Json_msg ''uB''\<rparr>, demo_world)"
proof -
  have s: "jwtSecret demo_env = Some ''secret''"
    by (simp add: demo_env_def)
  have "''forged'' \<noteq> []" and "''tokenB'' \<noteq> []"
    by simp_all
  then show ?thesis
    using auth_verify [OF _ s, of "''forged''" "\<lambda>u. ret \<lparr>status = 200, body = Json_msg (uid u)\<rparr>"
        demo_world]
      auth_verify [OF _ s, of "''tokenB''" "\<lambda>u. ret \<lparr>status = 200, body = Json_msg (uid u)\<rparr>"
        demo_world]
    by (simp add: demo_env_def ret_def)
qed

section \<open>The ownership guard\<close>

text \<open>
  Claim C3. Let the store answer and let the post with the requested id exist, under
  whatever spelling of the id the request names it. A
  request to delete the post from an identity other than the post's user, and a request
  to delete one of its comments from an identity other than the comment's user, are
  both answered with status 401 and the body \<^verbatim>\<open>{ msg: 'User not Authorized!' }\<close>, and
  leave the world, the post and the comment in it, as it was. Neither route reads a
  request body.
\<close>

theorem delete_by_other_rejected:
  assumes "faults w = []" and "castObjectId env pid = Some i"
    and "find (\<lambda>p. post_id p = i) (posts w) = Some p"
  shows "(post_user p \<noteq> uid req_user \<longrightarrow>
            delete_post env req_user pid w =
              (Inr \<lparr>status = 401, body = Json_msg ''User not Authorized!''\<rparr>, w))
       \<and> (\<forall>c. find (\<lambda>c. comment_id c = cid) (post_comments p) = Some c
              \<and> comment_user c \<noteq> uid req_user \<longrightarrow>
            delete_comment env req_user pid cid w =
              (Inr \<lparr>status = 401, body = Json_msg ''User not Authorized!''\<rparr>, w))"
  using assms
  by (simp add: delete_post_def delete_post_try_def delete_comment_def delete_comment_try_def
      Post_findById_def cast_oid_def io_defs)

theorem delete_by_other_rejected_witness:
  "delete_post demo_env \<lparr>uid = ''uB''\<rparr> ''p1'' demo_world =
     (Inr \<lparr>status = 401, body = Json_msg ''User not Authorized!''\<rparr>, demo_world)
   \<and> delete_comment demo_env \<lparr>uid = ''uB''\<rparr> ''p1'' ''c1'' demo_world =
     (Inr \<lparr>status = 401, body = Json_msg ''User not Authorized!''\<rparr>, demo_world)
   \<and> delete_post demo_env \<lparr>uid = ''uB''\<rparr> ''P1'' demo_world =
     (Inr \<lparr>status = 401, body = Json_msg ''User not Authorized!''\<rparr>, demo_world)"
proof -
  have h1: "faults demo_world = []"
    by (simp add: demo_world_def)
  have h2: "castObjectId demo_env ''p1'' = Some ''p1''"
    and h2': "castObjectId demo_env ''P1'' = Some ''p1''"
    by (simp_all add: demo_env_def)
  have h3: "find (\<lambda>p. post_id p = ''p1'') (posts demo_world) = Some demo_post"
    by (simp add: demo_world_def demo_post_def)
  show ?thesis
    using delete_by_other_rejected [OF h1 h2 h3, of "\<lparr>uid = ''uB''\<rparr>" "''c1''"]
      delete_by_other_rejected [OF h1 h2' h3, of "\<lparr>uid = ''uB''\<rparr>" "''c1''"]
    by (simp add: demo_post_def demo_comment_def)
qed

section \<open>Registration\<close>

text \<open>
  Claim C7. Let the store answer. A registration request whose validators found no
  error and whose email is the email of a stored user is answered with status 400 and
  the body \<^verbatim>\<open>{ errors: [{ msg: 'User Already exists!' }] }\<close>, and the world, the users
  collection in it, is as it was.
\<close>

theorem register_duplicate_email:
  assumes "faults w = []" and "u \<in> set (users w)" and "user_email u = email"
  shows "register env [] name email password w =
           (Inr \<lparr>status = 400, body = Json_errors [[(''msg'', ''User Already exists!'')]]\<rparr>, w)"
proof -
  from assms(2,3) have "find (\<lambda>u. user_email u = email) (users w) \<noteq> None"
    by (auto simp: find_None_iff)
  then obtain v where "find (\<lambda>u. user_email u = email) (users w) = Some v"
    by blast
  with assms(1) show ?thesis
    by (simp add: register_def register_try_def User_findOne_email_def io_defs)
qed

theorem register_duplicate_email_witness:
  "register demo_env [] ''Alice'' ''a@x.com'' ''secret1'' demo_world =
     (Inr \<lparr>status = 400, body = Json_errors [[(''msg'', ''User Already exists!'')]]\<rparr>,
      demo_world)"
proof -
  have h1: "faults demo_world = []"
    by (simp add: demo_world_def)
  have h2: "alice \<in> set (users demo_world)"
    by (simp add: demo_world_def)
  have h3: "user_email alice = ''a@x.com''"
    by (simp add: alice_def)
  show ?thesis
    using register_duplicate_email [OF h1 h2 h3] by simp
qed

section \<open>Experience and education entries\<close>

text \<open>
  Claim C8. Let the store answer and let the caller have a profile. A request to
  delete an experience entry whose id is the id of no entry of the profile, while the
  experience list is not empty, removes the last entry of the list: the index lookup
  gives \<open>-1\<close> and \<^verbatim>\<open>splice(-1, 1)\<close> is applied. The profile is saved without its last
  entry and sent with status 200. The same holds of the education list.
\<close>

theorem delete_absent_entry_removes_last:
  assumes "faults w = []" and "castObjectId env (uid req_user) = Some c"
    and "find (\<lambda>p. profile_user p = c) (profiles w) = Some p"
  shows "(profile_experience p \<noteq> [] \<and> i \<notin> set (map exp_id (profile_experience p)) \<longrightarrow>
           delete_experience env req_user i w =
             (Inr \<lparr>status = 200, body = Json_profile
                    (p\<lparr>profile_experience := butlast (profile_experience p)\<rparr>)\<rparr>,
              w\<lparr>profiles := replace_first (\<lambda>q. profile_id q = profile_id p)
                   (p\<lparr>profile_experience := butlast (profile_experience p)\<rparr>) (profiles w)\<rparr>))
       \<and> (profile_education p \<noteq> [] \<and> i \<notin> set (map edu_id (profile_education p)) \<longrightarrow>
           delete_education env req_user i w =
             (Inr \<lparr>status = 200, body = Json_profile
                    (p\<lparr>profile_education := butlast (profile_education p)\<rparr>)\<rparr>,
              w\<lparr>profiles := replace_first (\<lambda>q. profile_id q = profile_id p)
                   (p\<lparr>profile_education := butlast (profile_education p)\<rparr>) (profiles w)\<rparr>))"
  using assms
  by (simp add: delete_experience_def delete_experience_try_def delete_education_def
      delete_education_try_def Profile_findOne_user_def Profile_save_def cast_oid_def io_defs
      indexOf_absent js_splice_last Let_def res_json_def del: set_map)

theorem delete_absent_entry_removes_last_witness:
  "delete_experience demo_env \<lparr>uid = ''uA''\<rparr> ''zz'' demo_world =
     (Inr \<lparr>status = 200, body = Json_profile
            (demo_profile\<lparr>profile_experience := [demo_exp ''e1'']\<rparr>)\<rparr>,
      demo_world\<lparr>profiles := [demo_profile\<lparr>profile_experience := [demo_exp ''e1'']\<rparr>]\<rparr>)
   \<and> delete_education demo_env \<lparr>uid = ''uA''\<rparr> ''zz'' demo_world =
     (Inr \<lparr>status = 200, body = Json_profile (demo_profile\<lparr>profile_education := []\<rparr>)\<rparr>,
      demo_world\<lparr>profiles := [demo_profile\<lparr>profile_education := []\<rparr>]\<rparr>)"
proof -
  have h1: "faults demo_world = []"
    by (simp add: demo_world_def)
  have h2: "castObjectId demo_env (uid \<lparr>uid = ''uA''\<rparr>) = Some ''uA''"
    by (simp add: demo_env_def)
  have h3: "find (\<lambda>p. profile_user p = ''uA'') (profiles demo_world) = Some demo_profile"
    by (simp add: demo_world_def demo_profile_def)
  show ?thesis
    using delete_absent_entry_removes_last [OF h1 h2 h3, of "''zz''"]
    by (simp add: demo_world_def demo_profile_def demo_exp_def demo_edu_def)
qed

section \<open>Likes\<close>

text \<open>
  Claim C10. Let the store answer, let the post and the caller's user record exist,
  the caller's id being the id string of that record, and let the post's likes hold
  no entry of the caller. Then the like request is
  answered with the likes list with one entry of the caller put in front, the unlike
  request that follows it is answered with the likes list the post had before, and the
  posts collection after the two requests is the posts collection before them.
\<close>

theorem like_then_unlike:
  assumes "faults w = []" and "castObjectId env pid = Some c"
    and "castObjectId env (uid req_user) = Some (uid req_user)"
    and "find (\<lambda>q. post_id q = c) (posts w) = Some p"
    and "find (\<lambda>u. user_id u = uid req_user) (users w) = Some usr"
    and "uid req_user \<notin> set (map like_user (post_likes p))"
  shows "fst (like_post env req_user pid w) =
           Inr \<lparr>status = 200, body = Json_likes
             (\<lparr>like_id = newObjectId env (next_oid w), like_user = uid req_user,
               like_name = user_name usr\<rparr> # post_likes p)\<rparr>
       \<and> fst (unlike_post env req_user pid (snd (like_post env req_user pid w))) =
           Inr \<lparr>status = 200, body = Json_likes (post_likes p)\<rparr>
       \<and> posts (snd (unlike_post env req_user pid (snd (like_post env req_user pid w)))) = posts w"
proof -
  let ?l = "\<lparr>like_id = newObjectId env (next_oid w), like_user = uid req_user,
             like_name = user_name usr\<rparr>"
  let ?p' = "p\<lparr>post_likes := ?l # post_likes p\<rparr>"
  let ?w' = "w\<lparr>next_oid := Suc (next_oid w),
               posts := replace_first (\<lambda>q. post_id q = post_id ?p') ?p' (posts w)\<rparr>"
  have none: "filter (\<lambda>l. like_user l = uid req_user) (post_likes p) = []"
    using assms(6) by (force simp: filter_empty_conv)
  have pid: "post_id p = c"
    using find_Some_mem [OF assms(4)] by simp
  have like: "like_post env req_user pid w = (Inr (res_json (Json_likes (?l # post_likes p))), ?w')"
    using assms(1-5) none
    by (simp add: like_post_def like_try_def Post_findById_def User_findById_def Post_save_def
        cast_oid_def new_oid_def io_defs)
  have found: "find (\<lambda>q. post_id q = c) (posts ?w') = Some ?p'"
    using find_replace_first [OF assms(4), of ?p'] pid by simp
  have unlike: "unlike_post env req_user pid ?w' =
      (Inr (res_json (Json_likes (post_likes p))),
       ?w'\<lparr>posts := replace_first (\<lambda>q. post_id q = c) p (posts ?w')\<rparr>)"
    using assms(1,2) found pid
    by (simp add: unlike_post_def unlike_try_def Post_findById_def Post_save_def cast_oid_def
        io_defs js_splice_head Let_def)
  have "replace_first (\<lambda>q. post_id q = c) p (posts ?w') = posts w"
    using replace_first_undo [OF assms(4), of ?p'] pid by simp
  with like unlike show ?thesis by (simp add: res_json_def)
qed

theorem like_then_unlike_witness:
  "fst (like_post demo_env \<lparr>uid = ''uB''\<rparr> ''p1'' demo_world) =
     Inr \<lparr>status = 200, body = Json_likes
           [\<lparr>like_id = ''n++++'', like_user = ''uB'', like_name = ''Bob''\<rparr>]\<rparr>
   \<and> fst (unlike_post demo_env \<lparr>uid = ''uB''\<rparr> ''p1''
            (snd (like_post demo_env \<lparr>uid = ''uB''\<rparr> ''p1'' demo_world))) =
     Inr \<lparr>status = 200, body = Json_likes []\<rparr>
   \<and> posts (snd (unlike_post demo_env \<lparr>uid = ''uB''\<rparr> ''p1''
            (snd (like_post demo_env \<lparr>uid = ''uB''\<rparr> ''p1'' demo_world)))) = [demo_post]"
proof -
  have h1: "faults demo_world = []"
    by (simp add: demo_world_def)
  have h2: "castObjectId demo_env ''p1'' = Some ''p1''"
    by (simp add: demo_env_def)
  have h3: "castObjectId demo_env (uid \<lparr>uid = ''uB''\<rparr>) = Some (uid \<lparr>uid = ''uB''\<rparr>)"
    by (simp add: demo_env_def)
  have h4: "find (\<lambda>q. post_id q = ''p1'') (posts demo_world) = Some demo_post"
    by (simp add: demo_world_def demo_post_def)
  have h5: "find (\<lambda>u. user_id u = uid \<lparr>uid = ''uB''\<rparr>) (users demo_world) = Some bob"
    by (simp add: demo_world_def alice_def bob_def)
  have h6: "uid \<lparr>uid = ''uB''\<rparr> \<notin> set (map like_user (post_likes demo_post))"
    by (simp add: demo_post_def)
  have "post_likes demo_post = []" and "user_name bob = ''Bob''"
    and "newObjectId demo_env (next_oid demo_world) = ''n++++''"
    and "posts demo_world = [demo_post]"
    by (simp_all add: demo_post_def bob_def demo_env_def demo_world_def eval_nat_numeral)
  then show ?thesis
    using like_then_unlike [OF h1 h2 h3 h4 h5 h6] by simp
qed

section \<open>Deleting posts and comments\<close>

text \<open>
  What the two deletion routes do when the store answers. The owner's request removes
  the post, and the posts that stay are the stored ones, untouched. A post id that
  does not cast, or casts to the id of no stored post, is answered 404 by the post
  route, and a missing comment of a stored post is answered 404 by the comment route;
  neither answer depends on the caller.
\<close>

lemma remove_first_found:
  "find P xs = Some x \<Longrightarrow> \<exists>ys zs. xs = ys @ x # zs \<and> remove_first P xs = ys @ zs"
proof (induction xs)
  case Nil
  then show ?case by simp
next
  case (Cons a xs)
  show ?case
  proof (cases "P a")
    case True
    with Cons.prems have "a # xs = [] @ x # xs \<and> remove_first P (a # xs) = [] @ xs"
      by simp
    then show ?thesis by blast
  next
    case False
    with Cons obtain ys zs where "xs = ys @ x # zs" and "remove_first P xs = ys @ zs"
      by auto
    with False have "a # xs = (a # ys) @ x # zs \<and> remove_first P (a # xs) = (a # ys) @ zs"
      by simp
    then show ?thesis by blast
  qed
qed

lemma delete_post_by_owner:
  assumes "faults w = []" and "castObjectId env pid = Some c"
    and "find (\<lambda>p. post_id p = c) (posts w) = Some p" and "post_user p = uid req_user"
  shows "delete_post env req_user pid w =
           (Inr \<lparr>status = 200, body = Json_msg ''Post Removed!''\<rparr>,
            w\<lparr>posts := remove_first (\<lambda>q. post_id q = c) (posts w)\<rparr>)"
proof -
  have "post_id p = c"
    using find_Some_mem [OF assms(3)] by simp
  with assms show ?thesis
    by (simp add: delete_post_def delete_post_try_def Post_findById_def Post_remove_def
        cast_oid_def io_defs res_json_def)
qed

lemma delete_post_missing:
  assumes "faults w = []"
    and "\<forall>c. castObjectId env pid = Some c \<longrightarrow> find (\<lambda>p. post_id p = c) (posts w) = None"
  shows "fst (delete_post env req_user pid w) =
           Inr \<lparr>status = 404, body = Json_msg ''Post not Found!''\<rparr>
         \<and> posts (snd (delete_post env req_user pid w)) = posts w"
  using assms
  by (cases "castObjectId env pid")
    (simp_all add: delete_post_def delete_post_try_def Post_findById_def cast_oid_def io_defs
      catch_ObjectId_def console_error_def castError_def)

lemma delete_comment_missing_comment:
  assumes "faults w = []" and "castObjectId env pid = Some i"
    and "find (\<lambda>p. post_id p = i) (posts w) = Some p"
    and "find (\<lambda>c. comment_id c = cid) (post_comments p) = None"
  shows "delete_comment env req_user pid cid w =
           (Inr \<lparr>status = 404, body = Json_msg ''Comment does not exist!''\<rparr>, w)"
  using assms
  by (simp add: delete_comment_def delete_comment_try_def Post_findById_def cast_oid_def io_defs)

text \<open>
  The comment route reads \<^verbatim>\<open>post.comments\<close> without asking whether the post was
  found, and its catch block has no case for the kind \<^verbatim>\<open>ObjectId\<close>.
\<close>

lemma delete_comment_missing_post:
  assumes "faults w = []"
    and "\<forall>c. castObjectId env pid = Some c \<longrightarrow> find (\<lambda>p. post_id p = c) (posts w) = None"
  shows "fst (delete_comment env req_user pid cid w) =
           Inr \<lparr>status = 500, body = Send ''Server Error!''\<rparr>
         \<and> posts (snd (delete_comment env req_user pid cid w)) = posts w"
  using assms
  by (cases "castObjectId env pid")
    (simp_all add: delete_comment_def delete_comment_try_def Post_findById_def cast_oid_def
      io_defs catch_500_def console_error_def)

text \<open>
  Past the ownership check the comment route maps \<^verbatim>\<open>comment.idnpm.toString()\<close> over
  a list that holds at least the comment it found, so the owner's request always ends
  in the catch block.
\<close>

lemma delete_comment_by_owner:
  assumes "faults w = []" and "castObjectId env pid = Some i"
    and "find (\<lambda>p. post_id p = i) (posts w) = Some p"
    and "find (\<lambda>c. comment_id c = cid) (post_comments p) = Some c"
    and "comment_user c = uid req_user"
  shows "delete_comment env req_user pid cid w =
           (Inr \<lparr>status = 500, body = Send ''Server Error!''\<rparr>,
            w\<lparr>console := console w @ [''Cannot read property toString of undefined'']\<rparr>)"
proof -
  from assms(4) have "post_comments p \<noteq> []"
    by auto
  then obtain c' cs where "post_comments p = c' # cs"
    by (cases "post_comments p") auto
  with assms show ?thesis
    by (simp add: delete_comment_def delete_comment_try_def Post_findById_def cast_oid_def
        io_defs map_idnpm_toString_def catch_500_def console_error_def typeError_def
        split: if_splits)
qed

text \<open>
  Claim C1. The claim says that a request to delete a post or a comment from its
  owner succeeds and removes it. For a post it does (\<open>delete_post_by_owner\<close>). For a
  comment it does not: in the stored post \<^verbatim>\<open>p1\<close>, whose only comment \<^verbatim>\<open>c1\<close> is of user
  \<^verbatim>\<open>uA\<close>, the request of \<^verbatim>\<open>uA\<close> to delete \<^verbatim>\<open>c1\<close> is answered with status 500 and the
  text \<^verbatim>\<open>Server Error!\<close>, and the store still holds the post with the comment; only
  the error log has grown.
\<close>

theorem owner_comment_delete_answers_500:
  "find (\<lambda>c. comment_id c = ''c1'') (post_comments demo_post) = Some demo_comment
   \<and> comment_user demo_comment = ''uA''
   \<and> serve demo_env (Private (Some ''tokenA'') (DELETE_comment ''p1'' ''c1'')) demo_world =
       (Inr \<lparr>status = 500, body = Send ''Server Error!''\<rparr>,
        demo_world\<lparr>console := [''Cannot read property toString of undefined'']\<rparr>)"
  by (simp add: demo_defs auth_def verify_token_def config_get_jwtSecret_def delete_comment_def
      delete_comment_try_def Post_findById_def cast_oid_def io_defs map_idnpm_toString_def
      catch_500_def console_error_def typeError_def)

text \<open>
  Claim C4. The claim says that a deletion request for a post or comment that is not
  in the store is answered 404. The post route does so, and the comment route does so
  for a missing comment of a stored post (\<open>delete_post_missing\<close>,
  \<open>delete_comment_missing_comment\<close>). But no post of the store has the id \<^verbatim>\<open>p9\<close>,
  and the request to delete the comment \<^verbatim>\<open>c1\<close> of the post \<^verbatim>\<open>p9\<close> is answered with
  status 500 and the text \<^verbatim>\<open>Server Error!\<close>.
\<close>

theorem comment_delete_missing_post_answers_500:
  "find (\<lambda>p. post_id p = ''p9'') (posts demo_world) = None
   \<and> serve demo_env (Private (Some ''tokenA'') (DELETE_comment ''p9'' ''c1'')) demo_world =
       (Inr \<lparr>status = 500, body = Send ''Server Error!''\<rparr>,
        demo_world\<lparr>console := [''Cannot read property comments of null'']\<rparr>)"
  by (simp add: demo_defs auth_def verify_token_def config_get_jwtSecret_def delete_comment_def
      delete_comment_try_def Post_findById_def cast_oid_def io_defs catch_500_def
      console_error_def typeError_def)

section \<open>Exceptions in the handlers\<close>

text \<open>
  An exception with which the \<^verbatim>\<open>try\<close> block of a handler ends is caught by the
  handler's catch block and answered: with status 500 and the text \<^verbatim>\<open>Server Error\<close>
  or \<^verbatim>\<open>Server Error!\<close>, except that an exception of kind \<^verbatim>\<open>ObjectId\<close> is answered
  404 by GET and DELETE \<^verbatim>\<open>api/posts/:post_id\<close> and 400 by GET
  \<^verbatim>\<open>api/profile/user/:user_id\<close>. A handler whose every throw is inside its
  \<^verbatim>\<open>try\<close> block therefore always ends with a response.
\<close>

lemma catch_500_responds: "fst (catch_500 t e w) = Inr \<lparr>status = 500, body = Send t\<rparr>"
  by (simp add: catch_500_def console_error_def bind_def ret_def)

lemma catch_ObjectId_responds:
  "fst (catch_ObjectId st m t e w) =
     Inr (if kind e = Some ''ObjectId'' then \<lparr>status = st, body = Json_msg m\<rparr>
          else \<lparr>status = 500, body = Send t\<rparr>)"
  by (simp add: catch_ObjectId_def console_error_def bind_def ret_def)

lemma try_catch_thrown: "thrown (m w) = Some e \<Longrightarrow> try_catch m h w = h e (snd (m w))"
  by (cases "m w") (auto simp: thrown_def try_catch_def split: sum.splits)

lemma try_catch_responds:
  assumes "\<And>e w. \<exists>r. fst (h e w) = Inr r"
  shows "\<exists>r. fst (try_catch m h w) = Inr r"
proof (cases "m w")
  case (Pair r w')
  then show ?thesis
    using assms by (cases r) (simp_all add: try_catch_def)
qed

lemma ret_responds: "\<exists>r. fst (ret x w) = Inr r"
  by (simp add: ret_def)

lemmas responds =
  try_catch_responds [of "catch_500 t" for t, unfolded catch_500_responds, OF exI, OF refl]
  try_catch_responds [of "catch_ObjectId st m t" for st m t, unfolded catch_ObjectId_responds,
    OF exI, OF refl]
  ret_responds

lemmas handler_defs = create_post_def get_posts_def get_post_def delete_post_def like_post_def
  unlike_post_def add_comment_def delete_comment_def profile_me_def upsert_profile_def
  delete_account_def add_experience_def delete_experience_def add_education_def
  delete_education_def get_profiles_def profile_by_user_def

lemma private_handler_responds:
  assumes "\<And>errors b. rq = POST_profile errors b \<Longrightarrow> body_skills b \<noteq> Not_a_string"
  shows "\<exists>r. fst (private_handler env u rq w) = Inr r"
proof (cases rq)
  case (POST_profile errors b)
  with assms have "\<exists>skills. split_skills (body_skills b) = Inr skills"
    by (cases "body_skills b") (simp_all add: split_skills_def)
  with POST_profile show ?thesis
    by (auto simp: upsert_profile_def responds)
qed (simp_all add: handler_defs responds)

lemma results_ret: "Q x \<Longrightarrow> results (ret x) Q"
  by (simp add: results_def ret_def)

lemma results_throw: "results (throw e) Q"
  by (simp add: results_def throw_def)

lemma results_bind: "(\<And>x. results (f x) Q) \<Longrightarrow> results (bind m f) Q"
  unfolding results_def bind_def
  by (auto split: prod.splits sum.splits)

text \<open>
  The registration's \<^verbatim>\<open>try\<close> block leaves the callback pending only with what
  \<^verbatim>\<open>jwt.sign\<close> is going to pass to it after the handler has returned.
\<close>

lemma register_try_pending:
  "results (register_try env name email password)
     (\<lambda>k. \<forall>e token. k = Pending e token \<longrightarrow>
        (\<exists>i secret t. jwt_sign env i secret 36000 t = Callback After e token))"
  unfolding register_try_def sent_def Let_def
  by (auto intro!: results_bind results_ret results_throw
      split: option.splits sum.splits sign_outcome.splits moment.splits) blast

lemma register_thrown:
  assumes "thrown (register_try env name email password w) = Some e"
  shows "fst (register env [] name email password w) =
           Inr \<lparr>status = 500, body = Send ''Server Error''\<rparr>"
  using assms
    try_catch_thrown [of "register_try env name email password" w e
      "\<lambda>e. sent (catch_500 ''Server Error'' e)"]
  by (simp add: register_def sent_def catch_500_def console_error_def bind_def ret_def)

lemma public_handler_responds:
  assumes "\<forall>i secret ttl t e token. jwt_sign env i secret ttl t \<noteq> Callback After (Some e) token"
  shows "\<exists>r. fst (public_handler env rq w) = Inr r"
proof (cases rq)
  case (POST_users errors name email password)
  show ?thesis
  proof (cases "errors = []")
    case False
    with POST_users show ?thesis by (simp add: register_def ret_def)
  next
    case True
    show ?thesis
    proof (cases "thrown (register_try env name email password w)")
      case (Some e)
      with POST_users True show ?thesis
        by (simp add: register_thrown)
    next
      case None
      then obtain k w1 where k: "register_try env name email password w = (Inr k, w1)"
        by (cases "register_try env name email password w")
          (auto simp: thrown_def split: sum.splits)
      show ?thesis
      proof (cases k)
        case (Sent resp)
        with k POST_users True show ?thesis
          by (simp add: register_def try_catch_def bind_def ret_def)
      next
        case (Pending e token)
        have "fst (register_try env name email password w) = Inr k"
          using k by simp
        with register_try_pending [of env name email password] Pending
        have "\<exists>i secret t. jwt_sign env i secret 36000 t = Callback After e token"
          unfolding results_def by blast
        then obtain i secret t where "jwt_sign env i secret 36000 t = Callback After e token"
          by blast
        with assms have "e = None" by (cases e) auto
        with k Pending POST_users True show ?thesis
          by (simp add: register_def try_catch_def bind_def ret_def sign_callback_def)
      qed
    qed
  qed
qed (simp_all add: handler_defs responds)

lemma serve_responds:
  assumes "\<forall>i secret ttl t e token. jwt_sign env i secret ttl t \<noteq> Callback After (Some e) token"
    and "\<forall>header errors b. rq = Private header (POST_profile errors b) \<longrightarrow>
           body_skills b \<noteq> Not_a_string"
  shows "\<exists>r. fst (serve env rq w) = Inr r"
proof (cases rq)
  case (Public r)
  with public_handler_responds [OF assms(1)] show ?thesis by simp
next
  case (Private header r)
  with assms(2) have "\<exists>resp. fst (private_handler env u r w) = Inr resp" for u
    by (intro private_handler_responds) simp
  with Private show ?thesis
    by (simp add: auth_def split: option.splits sum.splits)
qed

lemma public_handler_thrown:
  assumes "public_try_throws env rq w = Some e"
  shows "fst (public_handler env rq w) =
           Inr (if kind e = Some ''ObjectId'' \<and> (\<exists>i. rq = GET_profile_user i)
                then \<lparr>status = 400, body = Json_msg ''Profile not found!''\<rparr>
                else \<lparr>status = 500, body = Send ''Server Error''\<rparr>)"
  using assms
  by (cases rq)
    (auto simp: handler_defs try_catch_thrown catch_500_responds catch_ObjectId_responds
      register_thrown split: if_splits)

lemma private_handler_thrown:
  assumes "private_try_throws env u rq w = Some e"
  shows "fst (private_handler env u rq w) =
           Inr (if kind e = Some ''ObjectId'' \<and> (\<exists>i. rq = GET_post i \<or> rq = DELETE_post i)
                then \<lparr>status = 404, body = Json_msg ''Post not Found!''\<rparr>
                else \<lparr>status = 500, body = Send
                       (if rq = GET_profile_me \<or> rq = DELETE_profile
                           \<or> (\<exists>errors b. rq = POST_profile errors b)
                        then ''Server Error'' else ''Server Error!'')\<rparr>)"
  using assms
  by (cases rq)
    (auto simp: handler_defs try_catch_thrown catch_500_responds catch_ObjectId_responds
      split: if_splits sum.splits)

lemma try_block_exceptions_answered:
  "(\<forall>e. public_try_throws env pub w = Some e \<longrightarrow>
      fst (public_handler env pub w) =
        Inr (if kind e = Some ''ObjectId'' \<and> (\<exists>i. pub = GET_profile_user i)
             then \<lparr>status = 400, body = Json_msg ''Profile not found!''\<rparr>
             else \<lparr>status = 500, body = Send ''Server Error''\<rparr>))
   \<and> (\<forall>e. private_try_throws env u prv w = Some e \<longrightarrow>
      fst (private_handler env u prv w) =
        Inr (if kind e = Some ''ObjectId'' \<and> (\<exists>i. prv = GET_post i \<or> prv = DELETE_post i)
             then \<lparr>status = 404, body = Json_msg ''Post not Found!''\<rparr>
             else \<lparr>status = 500, body = Send
                    (if prv = GET_profile_me \<or> prv = DELETE_profile
                        \<or> (\<exists>errors b. prv = POST_profile errors b)
                     then ''Server Error'' else ''Server Error!'')\<rparr>))"
  by (intro conjI allI impI) (erule public_handler_thrown private_handler_thrown)+

lemma cast_error_answered_404:
  "private_try_throws demo_env \<lparr>uid = ''uA''\<rparr> (DELETE_post ''x'') demo_world = Some castError
   \<and> fst (serve demo_env (Private (Some ''tokenA'') (DELETE_post ''x'')) demo_world) =
       Inr \<lparr>status = 404, body = Json_msg ''Post not Found!''\<rparr>"
  by (simp add: demo_env_def demo_world_def thrown_def auth_def verify_token_def
      config_get_jwtSecret_def delete_post_def delete_post_try_def Post_findById_def
      cast_oid_def io_defs catch_ObjectId_def console_error_def castError_def)

text \<open>
  Two throws are outside every \<^verbatim>\<open>try\<close> block. The profile route calls
  \<^verbatim>\<open>skills.split\<close> before its \<^verbatim>\<open>try\<close> block, so for every caller with a token that
  verifies, a body without validation errors whose \<^verbatim>\<open>skills\<close> is truthy and not a
  string ends the handler with a TypeError and no response. The registration's
  \<^verbatim>\<open>jwt.sign\<close> callback rethrows the error it is given; when it runs after the handler
  has returned, the exception is caught by nobody and no response is sent, while the
  user has been stored.
\<close>

lemma skills_not_a_string_uncaught:
  assumes "token \<noteq> []" and "verify_token env token (now w) = Inr decoded"
    and "body_skills b = Not_a_string"
  shows "serve env (Private (Some token) (POST_profile [] b)) w =
           (Inl (typeError ''skills.split is not a function''), w)"
  using assms by (simp add: auth_def upsert_profile_def split_skills_def throw_def)

lemma late_sign_error_uncaught:
  assumes "faults w = []" and "find (\<lambda>u. user_email u = email) (users w) = None"
    and "jwtSecret env = Some secret"
    and "\<And>i t. jwt_sign env i secret 36000 t = Callback After (Some e) token"
  shows "fst (serve env (Public (POST_users [] name email password)) w) = Inl e
         \<and> map user_email (users (snd (serve env (Public (POST_users [] name email password)) w)))
             = map user_email (users w) @ [email]"
  using assms
  by (simp add: register_def register_try_def User_findOne_email_def User_insert_def new_oid_def
      Date_now_def config_get_jwtSecret_def sign_callback_def io_defs Let_def)

text \<open>
  Claim C2. The claim says that every exception raised in a route handler, a failure
  of token signing during registration among them, is caught by the handler and
  answered with status 500, so that no input and no failing collaborator leaves an
  exception uncaught. The code does not do that at these two requests. Alice's
  request to POST \<^verbatim>\<open>api/profile\<close> with a \<^verbatim>\<open>skills\<close> that is not a string ends with an
  uncaught TypeError and no response. Carol's registration, with a \<^verbatim>\<open>jwt.sign\<close> that
  reports its error after the handler has returned, ends with that error uncaught and
  no response.
\<close>

theorem throws_outside_try_uncaught:
  "fst (serve demo_env
          (Private (Some ''tokenA'') (POST_profile [] (demo_body\<lparr>body_skills := Not_a_string\<rparr>)))
          demo_world) =
     Inl (typeError ''skills.split is not a function'')
   \<and> fst (serve late_env (Public (POST_users [] ''Carol'' ''c@x.com'' ''secret3'')) demo_world) =
     Inl \<lparr>message = ''secretOrPrivateKey must be a string'', kind = None\<rparr>"
  by (simp add: demo_defs demo_body_def late_env_def auth_def verify_token_def
      config_get_jwtSecret_def upsert_profile_def split_skills_def register_def register_try_def
      User_findOne_email_def User_insert_def new_oid_def Date_now_def sign_callback_def io_defs
      Let_def)

section \<open>No post is liked twice by one user\<close>





lemma likes_once_faults [simp]: "likes_once (w\<lparr>faults := fs\<rparr>) = likes_once w"
  by (simp add: likes_once_def)


lemma keeps_weaken: "keeps m Q \<Longrightarrow> (\<And>x. Q x \<Longrightarrow> R x) \<Longrightarrow> keeps m R"
  by (simp add: keeps_def)


































end
